theory Spec2Isabelle
  imports Complex_Main
begin

section \<open>atomman.core.System: a shallow embedding\<close>

text \<open>
  The class \<open>System\<close> of \<open>src/atomman/core/System.py\<close> joins an \<open>Atoms\<close> instance, a
  \<open>Box\<close> instance, three periodicity flags and a free-form property dictionary.
  Numbers are exact reals, numpy arrays of 3-vectors are lists of triples, every
  exception the methods can raise is a value of type \<open>error\<close>, and a method that mutates
  the System returns the new System.
\<close>

subsection \<open>Vectors and 3x3 matrices (the numpy operations the class uses)\<close>

type_synonym vec3 = "real \<times> real \<times> real"

text \<open>A matrix is the triple of its rows, as \<open>Box.vects\<close> is \<open>[avect, bvect, cvect]\<close>.\<close>

type_synonym mat3 = "vec3 \<times> vec3 \<times> vec3"

fun vadd :: "vec3 \<Rightarrow> vec3 \<Rightarrow> vec3" where
  "vadd (x, y, z) (u, v, w) = (x + u, y + v, z + w)"

fun vsub :: "vec3 \<Rightarrow> vec3 \<Rightarrow> vec3" where
  "vsub (x, y, z) (u, v, w) = (x - u, y - v, z - w)"

text \<open>\<open>vect * k\<close>: a vector times a scalar.\<close>

fun vscale :: "vec3 \<Rightarrow> real \<Rightarrow> vec3" where
  "vscale (x, y, z) k = (x * k, y * k, z * k)"

text \<open>\<open>v.dot(m)\<close> for a vector of shape (3,) and a matrix of shape (3, 3).\<close>

fun vdot :: "vec3 \<Rightarrow> mat3 \<Rightarrow> vec3" where
  "vdot (x, y, z) ((a1, a2, a3), (b1, b2, b3), (c1, c2, c3)) =
     (x * a1 + y * b1 + z * c1, x * a2 + y * b2 + z * c2, x * a3 + y * b3 + z * c3)"

fun mdot :: "mat3 \<Rightarrow> mat3 \<Rightarrow> mat3" where
  "mdot (r1, r2, r3) m = (vdot r1 m, vdot r2 m, vdot r3 m)"

definition identity3 :: mat3 where
  "identity3 = ((1, 0, 0), (0, 1, 0), (0, 0, 1))"

fun det3 :: "mat3 \<Rightarrow> real" where
  "det3 ((a1, a2, a3), (b1, b2, b3), (c1, c2, c3)) =
     a1 * (b2 * c3 - b3 * c2) - a2 * (b1 * c3 - b3 * c1) + a3 * (b1 * c2 - b2 * c1)"

text \<open>The transposed matrix of cofactors.\<close>

fun adjugate3 :: "mat3 \<Rightarrow> mat3" where
  "adjugate3 ((a1, a2, a3), (b1, b2, b3), (c1, c2, c3)) =
     ((b2 * c3 - b3 * c2, a3 * c2 - a2 * c3, a2 * b3 - a3 * b2),
      (b3 * c1 - b1 * c3, a1 * c3 - a3 * c1, a3 * b1 - a1 * b3),
      (b1 * c2 - b2 * c1, a2 * c1 - a1 * c2, a1 * b2 - a2 * b1))"

datatype error =
    LinAlgError        \<comment> \<open>\<open>np.linalg.inv\<close> of a singular matrix\<close>
  | AssertionError     \<comment> \<open>a failed \<open>assert\<close>\<close>
  | ValueError         \<comment> \<open>\<open>min\<close>/\<open>max\<close> of an empty array, a ragged array\<close>
  | IndexError         \<comment> \<open>an index out of range\<close>
  | ExternalError string  \<comment> \<open>raised inside a function that is not part of this class\<close>

text \<open>
  \<open>np.linalg.inv\<close>: the inverse in exact arithmetic, \<open>LinAlgError\<close> for a singular matrix.
\<close>

definition linalg_inv :: "mat3 \<Rightarrow> error + mat3" where
  "linalg_inv m =
     (if det3 m = 0 then Inl LinAlgError
      else (case adjugate3 m of (r1, r2, r3) \<Rightarrow>
              Inr (vscale r1 (1 / det3 m), vscale r2 (1 / det3 m), vscale r3 (1 / det3 m))))"

subsection \<open>Arrays of 3-vectors\<close>

text \<open>
  The values \<open>scale\<close> and \<open>unscale\<close> take: one vector (shape (3,)) or an array of vectors
  (shape (N, 3)). Subtracting or adding the origin broadcasts over the rows, and
  \<open>.dot\<close> multiplies every row by the matrix.
\<close>

datatype varray = Vec vec3 | Vecs "vec3 list"

fun varray_map :: "(vec3 \<Rightarrow> vec3) \<Rightarrow> varray \<Rightarrow> varray" where
  "varray_map f (Vec v) = Vec (f v)"
| "varray_map f (Vecs vs) = Vecs (map f vs)"

subsection \<open>Box, Atoms and System\<close>

text \<open>
  \<open>Box\<close> and \<open>Atoms\<close> are data containers defined outside \<open>System.py\<close>. What the class
  reads of a Box is \<open>vects\<close> (rows \<open>avect\<close>, \<open>bvect\<close>, \<open>cvect\<close>) and \<open>origin\<close>; what it
  reads and writes of an Atoms is the array \<open>view['pos']\<close>.
\<close>

record box =
  vects :: mat3
  origin :: vec3

definition avect :: "box \<Rightarrow> vec3" where "avect b = fst (vects b)"
definition bvect :: "box \<Rightarrow> vec3" where "bvect b = fst (snd (vects b))"
definition cvect :: "box \<Rightarrow> vec3" where "cvect b = snd (snd (vects b))"

record atoms =
  pos :: "vec3 list"

record 'v system =
  atoms :: atoms
  box :: box
  pbc :: "bool list"
  props :: "string \<rightharpoonup> 'v"   \<comment> \<open>the dictionary \<open>prop\<close>\<close>

subsection \<open>scale and unscale\<close>

text \<open>
  \<^verbatim>\<open>
  def scale(self, value):
      value = np.asarray(value)
      vects = self.box.vects
      inverse = np.linalg.inv(vects)
      origin = self.box.origin
      return (value - origin).dot(inverse)

  def unscale(self, value):
      value = np.asarray(value)
      vects = self.box.vects
      origin = self.box.origin
      return value.dot(vects) + origin
  \<close>
\<close>

definition scale :: "'v system \<Rightarrow> varray \<Rightarrow> error + varray" where
  "scale s val =
     (case linalg_inv (vects (box s)) of
        Inl e \<Rightarrow> Inl e
      | Inr inverse_m \<Rightarrow> Inr (varray_map (\<lambda>v. vdot (vsub v (origin (box s))) inverse_m) val))"

definition unscale :: "'v system \<Rightarrow> varray \<Rightarrow> varray" where
  "unscale s val = varray_map (\<lambda>v. vadd (vdot v (vects (box s))) (origin (box s))) val"

text \<open>
  The words of the specification: \<open>n\<close> is an inverse of the lattice matrix \<open>m\<close> when
  both products are the identity.
\<close>

definition is_inverse :: "mat3 \<Rightarrow> mat3 \<Rightarrow> bool" where
  "is_inverse n m \<longleftrightarrow> mdot m n = identity3 \<and> mdot n m = identity3"

subsection \<open>Assigning to the position array\<close>

text \<open>
  \<open>self.atoms.view['pos'][:] = value\<close> overwrites the rows of the existing array and
  keeps its length: a value of the same length is copied, a single vector (or an array
  of one row) is broadcast to every row, and any other length is a numpy \<open>ValueError\<close>.
\<close>

fun assign_pos :: "atoms \<Rightarrow> varray \<Rightarrow> error + atoms" where
  "assign_pos a (Vec v) = Inr (a\<lparr>pos := replicate (length (pos a)) v\<rparr>)"
| "assign_pos a (Vecs vs) =
     (if length vs = length (pos a) then Inr (a\<lparr>pos := vs\<rparr>)
      else if length vs = 1 then Inr (a\<lparr>pos := replicate (length (pos a)) (hd vs)\<rparr>)
      else Inl ValueError)"

subsection \<open>box\_set and box\_normalize\<close>

text \<open>
  \<^verbatim>\<open>
  def box_set(self, **kwargs):
      scale = kwargs.pop('scale', False)
      if not 'scale':
          self.__box.set(**kwargs)
      else:
          spos = self.scale(self.atoms.view['pos'])
          self.__box.set(**kwargs)
          self.atoms.view['pos'][:] = self.unscale(spos)
  \<close>
  The test is on the string literal \<open>'scale'\<close>, not on the variable \<open>scale\<close>. A Python
  string is true when it is not empty.

  \<open>Box.set\<close> is defined outside \<open>System.py\<close>: the effect of \<open>self.__box.set(**kwargs)\<close>
  for the remaining keyword arguments is the parameter \<open>Box_set\<close>, a function from the
  old Box to an error or the new Box.
\<close>

definition truthy_str :: "string \<Rightarrow> bool" where
  "truthy_str str \<longleftrightarrow> str \<noteq> []"

definition box_set :: "(box \<Rightarrow> error + box) \<Rightarrow> bool \<Rightarrow> 'v system \<Rightarrow> error + 'v system" where
  "box_set Box_set scale_kw s =
     (if \<not> truthy_str ''scale'' then
        (case Box_set (box s) of
           Inl e \<Rightarrow> Inl e
         | Inr b \<Rightarrow> Inr (s\<lparr>box := b\<rparr>))
      else
        (case scale s (Vecs (pos (atoms s))) of
           Inl e \<Rightarrow> Inl e
         | Inr spos \<Rightarrow>
             (case Box_set (box s) of
                Inl e \<Rightarrow> Inl e
              | Inr b \<Rightarrow>
                  (case assign_pos (atoms s) (unscale (s\<lparr>box := b\<rparr>) spos) of
                     Inl e \<Rightarrow> Inl e
                   | Inr a \<Rightarrow> Inr (s\<lparr>box := b, atoms := a\<rparr>)))))"

text \<open>
  Modelled from the spec: \<open>Box.set(avect=, bvect=, cvect=, origin=)\<close>, which is not in
  \<open>System.py\<close>. The specification gives a Box as three lattice vectors and an origin, set
  directly from the vectors, and has a degenerate lattice rejected.
\<close>

definition Box_set_vectors :: "vec3 \<Rightarrow> vec3 \<Rightarrow> vec3 \<Rightarrow> vec3 \<Rightarrow> box \<Rightarrow> error + box" where
  "Box_set_vectors a b c o_new old =
     (if det3 (a, b, c) = 0 then Inl (ExternalError ''SingularBoxError'')
      else Inr \<lparr>vects = (a, b, c), origin = o_new\<rparr>)"

text \<open>
  \<^verbatim>\<open>
  def box_normalize(self):
      spos = self.scale(self.atoms.view['pos'])
      self.__box.normalize()
      self.atoms.view['pos'][:] = self.unscale(spos)
  \<close>
  \<open>Box.normalize\<close> is defined outside \<open>System.py\<close> and is the parameter \<open>Box_normalize\<close>.
\<close>

definition box_normalize :: "(box \<Rightarrow> error + box) \<Rightarrow> 'v system \<Rightarrow> error + 'v system" where
  "box_normalize Box_normalize s =
     (case scale s (Vecs (pos (atoms s))) of
        Inl e \<Rightarrow> Inl e
      | Inr spos \<Rightarrow>
          (case Box_normalize (box s) of
             Inl e \<Rightarrow> Inl e
           | Inr b \<Rightarrow>
               (case assign_pos (atoms s) (unscale (s\<lparr>box := b\<rparr>) spos) of
                  Inl e \<Rightarrow> Inl e
                | Inr a \<Rightarrow> Inr (s\<lparr>box := b, atoms := a\<rparr>))))"

subsection \<open>wrap\<close>

text \<open>
  \<^verbatim>\<open>
  def wrap(self):
      mins = np.array([0.0, 0.0, 0.0])
      maxs = np.array([1.0, 1.0, 1.0])
      spos = self.scale(self.atoms.view['pos'])
      for i in xrange(3):
          if self.pbc[i]:
              spos[:, i] -= np.floor(spos[:, i])
          else:
              min = spos[:, i].min()
              max = spos[:, i].max()
              if min < 0.0: mins[i] = min - 0.001
              if max > 1.0: maxs[i] = max + 0.001
      self.atoms.view['pos'][:] = self.unscale(spos)
      origin = self.box.origin + mins.dot(self.box.vects)
      avect = self.box.avect * (maxs[0] - mins[0])
      bvect = self.box.bvect * (maxs[1] - mins[1])
      cvect = self.box.cvect * (maxs[2] - mins[2])
      self.box_set(avect=avect, bvect=bvect, cvect=cvect, origin=origin)
  \<close>
\<close>

fun comp :: "nat \<Rightarrow> vec3 \<Rightarrow> real" where
  "comp i (x, y, z) = (if i = 0 then x else if i = 1 then y else z)"

fun set_comp :: "nat \<Rightarrow> real \<Rightarrow> vec3 \<Rightarrow> vec3" where
  "set_comp i r (x, y, z) = (if i = 0 then (r, y, z) else if i = 1 then (x, r, z) else (x, y, r))"

text \<open>\<open>.min()\<close> and \<open>.max()\<close> of a column: a \<open>ValueError\<close> on an array of no rows.\<close>

fun array_min :: "real list \<Rightarrow> error + real" where
  "array_min [] = Inl ValueError"
| "array_min (x # xs) = Inr (fold min xs x)"

fun array_max :: "real list \<Rightarrow> error + real" where
  "array_max [] = Inl ValueError"
| "array_max (x # xs) = Inr (fold max xs x)"

record wrap_state =
  spos :: "vec3 list"
  mins :: vec3
  maxs :: vec3

text \<open>One round of the loop, for axis \<open>i\<close>; \<open>self.pbc[i]\<close> past the end is an \<open>IndexError\<close>.\<close>

definition wrap_axis :: "bool list \<Rightarrow> nat \<Rightarrow> wrap_state \<Rightarrow> error + wrap_state" where
  "wrap_axis flags i st =
     (if length flags \<le> i then Inl IndexError
      else if flags ! i then
        Inr (st\<lparr>spos := map (\<lambda>v. set_comp i (comp i v - of_int \<lfloor>comp i v\<rfloor>) v) (spos st)\<rparr>)
      else
        (case array_min (map (comp i) (spos st)) of
           Inl e \<Rightarrow> Inl e
         | Inr mn \<Rightarrow>
             (case array_max (map (comp i) (spos st)) of
                Inl e \<Rightarrow> Inl e
              | Inr mx \<Rightarrow>
                  Inr (st\<lparr>mins := (if mn < 0 then set_comp i (mn - 1 / 1000) (mins st) else mins st),
                          maxs := (if mx > 1 then set_comp i (mx + 1 / 1000) (maxs st) else maxs st)\<rparr>))))"

fun wrap_loop :: "bool list \<Rightarrow> nat list \<Rightarrow> wrap_state \<Rightarrow> error + wrap_state" where
  "wrap_loop flags [] st = Inr st"
| "wrap_loop flags (i # axes) st =
     (case wrap_axis flags i st of
        Inl e \<Rightarrow> Inl e
      | Inr st' \<Rightarrow> wrap_loop flags axes st')"

definition wrap :: "'v system \<Rightarrow> error + 'v system" where
  "wrap s =
     (case scale s (Vecs (pos (atoms s))) of
        Inl e \<Rightarrow> Inl e
      | Inr sp \<Rightarrow>
          (case sp of
             Vec v \<Rightarrow> Inl IndexError
           | Vecs rows \<Rightarrow>
               (case wrap_loop (pbc s) [0, 1, 2] \<lparr>spos = rows, mins = (0, 0, 0), maxs = (1, 1, 1)\<rparr> of
                  Inl e \<Rightarrow> Inl e
                | Inr st \<Rightarrow>
                    (case assign_pos (atoms s) (unscale s (Vecs (spos st))) of
                       Inl e \<Rightarrow> Inl e
                     | Inr a \<Rightarrow>
                         (let s1 = s\<lparr>atoms := a\<rparr>;
                              origin_new = vadd (origin (box s1)) (vdot (mins st) (vects (box s1)));
                              avect_new = vscale (avect (box s1)) (comp 0 (maxs st) - comp 0 (mins st));
                              bvect_new = vscale (bvect (box s1)) (comp 1 (maxs st) - comp 1 (mins st));
                              cvect_new = vscale (cvect (box s1)) (comp 2 (maxs st) - comp 2 (mins st))
                          in box_set (Box_set_vectors avect_new bvect_new cvect_new origin_new)
                               False s1)))))"

text \<open>The bounds of an axis-aligned box along x: \<open>xlo\<close> is the origin's first component.\<close>

definition xlo :: "box \<Rightarrow> real" where
  "xlo b = comp 0 (origin b)"

definition xhi :: "box \<Rightarrow> real" where
  "xhi b = comp 0 (origin b) + comp 0 (avect b)"

subsection \<open>Arrays of any shape\<close>

text \<open>
  What \<open>np.asarray\<close> is given: a scalar, or a sequence of such values. \<open>shape\<close> is the
  numpy shape; nested sequences of unequal shapes do not make an array of a numeric or
  boolean dtype (\<open>None\<close>).
\<close>

datatype 'a nd = El 'a | Arr "'a nd list"

fun shape :: "'a nd \<Rightarrow> nat list option" where
  "shape (El x) = Some []"
| "shape (Arr xs) =
     (case map shape xs of
        [] \<Rightarrow> Some [0]
      | sh # shs \<Rightarrow>
          (case sh of
             None \<Rightarrow> None
           | Some d \<Rightarrow> if list_all (\<lambda>t. t = Some d) shs then Some (length xs # d) else None))"

text \<open>The entries of an array, in order.\<close>

fun entries :: "'a nd \<Rightarrow> 'a list" where
  "entries (El x) = [x]"
| "entries (Arr xs) = concat (map entries xs)"

subsection \<open>The pbc property and the constructor\<close>

text \<open>
  \<^verbatim>\<open>
  @pbc.setter
  def pbc(self, value):
      pbc = np.asarray(value, dtype=bool)
      assert pbc.shape == (3L,), 'invalid pbc entry'
      self.__pbc = pbc
  \<close>
  The value is taken after its conversion to truth values.
\<close>

definition pbc_setter :: "bool nd \<Rightarrow> 'v system \<Rightarrow> error + 'v system" where
  "pbc_setter val s =
     (case shape val of
        None \<Rightarrow> Inl ValueError
      | Some sh \<Rightarrow> if sh = [3] then Inr (s\<lparr>pbc := entries val\<rparr>) else Inl AssertionError)"

text \<open>
  \<^verbatim>\<open>
  def __init__(self, atoms=Atoms(), box=Box(), pbc=(True, True, True), scale=False, prop={}):
      assert isinstance(box, Box), 'Invalid box entry'
      self.__box = box
      assert isinstance(atoms, Atoms), 'Invalid atoms entry'
      self.__atoms = atoms
      if scale is True:
          self.atoms.view['pos'][:] = self.unscale(atoms.view['pos'])
      self.pbc = pbc
      assert isinstance(prop, dict), 'invalid prop dictionary'
      self.__prop = prop
  \<close>
  The two \<open>isinstance\<close> checks and the one on \<open>prop\<close> are the types of the arguments. The
  Atoms object is the caller's and is rescaled in place before \<open>pbc\<close> is looked at, so
  the result is the final Atoms together with the error or the new System. While the
  constructor runs, the attributes not yet assigned are empty.
\<close>

definition System_init ::
  "atoms \<Rightarrow> box \<Rightarrow> bool nd \<Rightarrow> bool \<Rightarrow> (string \<rightharpoonup> 'v) \<Rightarrow> atoms \<times> (error + 'v system)" where
  "System_init atoms_arg box_arg pbc_arg scale_arg prop_arg =
     (let self0 = \<lparr>atoms = atoms_arg, box = box_arg, pbc = [], props = Map.empty\<rparr>;
          rescaled = (if scale_arg
                      then assign_pos atoms_arg (unscale self0 (Vecs (pos atoms_arg)))
                      else Inr atoms_arg)
      in case rescaled of
           Inl e \<Rightarrow> (atoms_arg, Inl e)
         | Inr a \<Rightarrow>
             (case pbc_setter pbc_arg (self0\<lparr>atoms := a\<rparr>) of
                Inl e \<Rightarrow> (a, Inl e)
              | Inr self1 \<Rightarrow> (a, Inr (self1\<lparr>props := prop_arg\<rparr>))))"

subsection \<open>atoms\_prop\<close>

text \<open>
  \<^verbatim>\<open>
  def atoms_prop(self, a_id=None, key=None, value=None, dtype=None, scale=False):
      if scale is False:
          return self.__atoms.prop(a_id=a_id, key=key, value=value, dtype=dtype)
      elif value is not None:
          value = self.unscale(value)
          self.__atoms.prop(a_id=a_id, key=key, value=value, dtype=dtype)
      else:
          value = self.__atoms.prop(a_id=a_id, key=key, dtype=dtype)
          if value is None:
              return None
          else:
              return self.scale(value)
  \<close>
  \<open>Atoms.prop\<close> is defined outside \<open>System.py\<close> and is the parameter \<open>Atoms_prop\<close>: given
  the selection \<open>sel\<close> (\<open>a_id\<close>, \<open>key\<close>, \<open>dtype\<close>) and an optional value it returns an
  optional value and the new Atoms. Values are arrays of 3-vectors, which is what the
  \<open>scale\<close> argument is for; \<open>None\<close> is Python's \<open>None\<close>.
\<close>

definition atoms_prop ::
  "('q \<Rightarrow> varray option \<Rightarrow> atoms \<Rightarrow> error + varray option \<times> atoms) \<Rightarrow>
   'q \<Rightarrow> varray option \<Rightarrow> bool \<Rightarrow> 'v system \<Rightarrow> error + varray option \<times> 'v system" where
  "atoms_prop Atoms_prop sel val scale_kw s =
     (if \<not> scale_kw then
        (case Atoms_prop sel val (atoms s) of
           Inl e \<Rightarrow> Inl e
         | Inr (r, a) \<Rightarrow> Inr (r, s\<lparr>atoms := a\<rparr>))
      else if val \<noteq> None then
        (case Atoms_prop sel (Some (unscale s (the val))) (atoms s) of
           Inl e \<Rightarrow> Inl e
         | Inr (r, a) \<Rightarrow> Inr (None, s\<lparr>atoms := a\<rparr>))
      else
        (case Atoms_prop sel None (atoms s) of
           Inl e \<Rightarrow> Inl e
         | Inr (r, a) \<Rightarrow>
             (case r of
                None \<Rightarrow> Inr (None, s\<lparr>atoms := a\<rparr>)
              | Some v \<Rightarrow>
                  (case scale (s\<lparr>atoms := a\<rparr>) v of
                     Inl e \<Rightarrow> Inl e
                   | Inr sv \<Rightarrow> Inr (Some sv, s\<lparr>atoms := a\<rparr>)))))"

subsection \<open>nlist\<close>

text \<open>
  \<^verbatim>\<open>
  def nlist(self, cutoff, cmult=1):
      self.prop['nlist'] = nlist(self, cutoff, cmult)
  \<close>
  The function \<open>nlist\<close> of \<open>atomman.tools\<close> is defined outside \<open>System.py\<close> and is the
  parameter \<open>tools_nlist\<close>: it reads the System and returns the neighbor list or raises.
  The method has no \<open>return\<close>: the call's value is Python's \<open>None\<close>, the first component
  of the result.
\<close>

definition nlist ::
  "('v system \<Rightarrow> real \<Rightarrow> int \<Rightarrow> error + 'v) \<Rightarrow> real \<Rightarrow> int \<Rightarrow> 'v system \<Rightarrow>
   error + 'v option \<times> 'v system" where
  "nlist tools_nlist cutoff cmult s =
     (case tools_nlist s cutoff cmult of
        Inl e \<Rightarrow> Inl e
      | Inr nl \<Rightarrow> Inr (None, s\<lparr>props := (props s)(''nlist'' \<mapsto> nl)\<rparr>))"

subsection \<open>dvect\<close>

text \<open>
  \<^verbatim>\<open>
  def dvect(self, pos_0, pos_1):
      pos_0 = np.asarray(pos_0)
      #if pos_0 is integer(s), use as atom indexes of self system
      if pos_0.dtype == int:
          pos_0 = self.atoms.view['pos'][pos_0]
      pos_1 = np.asarray(pos_1)
      #if pos_1 is integer(s), use as atom indexes of self system
      if pos_1.dtype == int:
          pos_1 = self.atoms.view['pos'][pos_1]
      return dvect(pos_0, pos_1, self.box, self.pbc)
  \<close>
  An array carries its dtype. \<open>dtype == int\<close> compares with the dtype numpy gives to
  Python's \<open>int\<close> (\<open>Int_default\<close>: the platform's C long); an integer dtype of another
  width or signedness (\<open>Int_other\<close>: \<open>int32\<close> or \<open>uint8\<close> where the default is \<open>int64\<close>)
  is not equal to it.
\<close>

datatype int_dtype = Int_default | Int_other

datatype ndarray =
    IntArray int_dtype "int nd"
  | FloatArray "real nd"
  | BoolArray "bool nd"

fun is_integer_dtype :: "ndarray \<Rightarrow> bool" where
  "is_integer_dtype (IntArray k a) = True"
| "is_integer_dtype (FloatArray a) = False"
| "is_integer_dtype (BoolArray a) = False"

fun dtype_eq_int :: "ndarray \<Rightarrow> bool" where
  "dtype_eq_int (IntArray Int_default a) = True"
| "dtype_eq_int (IntArray Int_other a) = False"
| "dtype_eq_int (FloatArray a) = False"
| "dtype_eq_int (BoolArray a) = False"

fun collect :: "(error + 'a) list \<Rightarrow> error + 'a list" where
  "collect [] = Inr []"
| "collect (r # rs) =
     (case r of
        Inl e \<Rightarrow> Inl e
      | Inr x \<Rightarrow> (case collect rs of Inl e \<Rightarrow> Inl e | Inr xs \<Rightarrow> Inr (x # xs)))"

fun row :: "vec3 \<Rightarrow> real nd" where
  "row (x, y, z) = Arr [El x, El y, El z]"

text \<open>
  \<open>view['pos'][idx]\<close> for an integer array \<open>idx\<close>: every index is replaced by that row of
  the positions; a negative index counts from the end, and an index out of range is an
  \<open>IndexError\<close>.
\<close>

fun take_rows :: "vec3 list \<Rightarrow> int nd \<Rightarrow> error + real nd" where
  "take_rows ps (El i) =
     (if - int (length ps) \<le> i \<and> i < int (length ps)
      then Inr (row (ps ! nat (if i < 0 then i + int (length ps) else i)))
      else Inl IndexError)"
| "take_rows ps (Arr idx) =
     (case collect (map (take_rows ps) idx) of
        Inl e \<Rightarrow> Inl e
      | Inr rs \<Rightarrow> Inr (Arr rs))"

fun index_data :: "ndarray \<Rightarrow> int nd" where
  "index_data (IntArray k a) = a"
| "index_data (FloatArray a) = Arr []"
| "index_data (BoolArray a) = Arr []"

definition resolve :: "'v system \<Rightarrow> ndarray \<Rightarrow> error + ndarray" where
  "resolve s arg =
     (if dtype_eq_int arg then
        (case take_rows (pos (atoms s)) (index_data arg) of
           Inl e \<Rightarrow> Inl e
         | Inr p \<Rightarrow> Inr (FloatArray p))
      else Inr arg)"

text \<open>
  The function \<open>dvect\<close> of \<open>atomman.tools\<close> is defined outside \<open>System.py\<close> and is the
  parameter \<open>tools_dvect\<close>.
\<close>

definition dvect ::
  "(ndarray \<Rightarrow> ndarray \<Rightarrow> box \<Rightarrow> bool list \<Rightarrow> error + 'r) \<Rightarrow>
   ndarray \<Rightarrow> ndarray \<Rightarrow> 'v system \<Rightarrow> error + 'r" where
  "dvect tools_dvect pos_0 pos_1 s =
     (case resolve s pos_0 of
        Inl e \<Rightarrow> Inl e
      | Inr p0 \<Rightarrow>
          (case resolve s pos_1 of
             Inl e \<Rightarrow> Inl e
           | Inr p1 \<Rightarrow> tools_dvect p0 p1 (box s) (pbc s)))"

subsection \<open>Example systems\<close>

text \<open>A triclinic box with a shifted origin, holding two atoms.\<close>

definition skew_system :: "int list list system" where
  "skew_system = \<lparr>atoms = \<lparr>pos = [(3, 4, 5), (0, 0, 0)]\<rparr>,
                   box = \<lparr>vects = ((2, 0, 0), (1, 3, 0), (0, 0, 4)), origin = (1, 1, 1)\<rparr>,
                   pbc = [True, True, True], props = Map.empty\<rparr>"

text \<open>A box turned by a quarter about z, and what normalizing it gives: the same cell along the axes.\<close>

definition rotated_system :: "int list list system" where
  "rotated_system = \<lparr>atoms = \<lparr>pos = [(-1, 1, 2), (4, 0, 1)]\<rparr>,
                      box = \<lparr>vects = ((0, 2, 0), (-3, 0, 0), (0, 0, 4)), origin = (1, 0, 0)\<rparr>,
                      pbc = [True, True, True], props = Map.empty\<rparr>"

definition rotated_normalize :: "box \<Rightarrow> error + box" where
  "rotated_normalize b = Inr \<lparr>vects = ((2, 0, 0), (0, 3, 0), (0, 0, 4)), origin = origin b\<rparr>"

text \<open>The unit box with one atom at its centre.\<close>

definition unit_system :: "int list list system" where
  "unit_system = \<lparr>atoms = \<lparr>pos = [(1/2, 1/2, 1/2)]\<rparr>,
                   box = \<lparr>vects = ((1, 0, 0), (0, 1, 0), (0, 0, 1)), origin = (0, 0, 0)\<rparr>,
                   pbc = [True, True, True], props = Map.empty\<rparr>"

text \<open>
  A cubic box from 0 to 10 on every axis, not periodic along x, with one atom at
  x = -0.5, and the Systems that one and two calls of \<open>wrap\<close> make of it.
\<close>

definition cubic_system :: "int list list system" where
  "cubic_system = \<lparr>atoms = \<lparr>pos = [(-1/2, 5, 5)]\<rparr>,
                    box = \<lparr>vects = ((10, 0, 0), (0, 10, 0), (0, 0, 10)), origin = (0, 0, 0)\<rparr>,
                    pbc = [False, True, True], props = Map.empty\<rparr>"

definition cubic_wrapped_once :: "int list list system" where
  "cubic_wrapped_once =
     \<lparr>atoms = \<lparr>pos = [(- (2071 / 2000), 5, 5)]\<rparr>,
      box = \<lparr>vects = ((1051 / 100, 0, 0), (0, 10, 0), (0, 0, 10)), origin = (- (51 / 100), 0, 0)\<rparr>,
      pbc = [False, True, True], props = Map.empty\<rparr>"

definition cubic_wrapped_twice :: "int list list system" where
  "cubic_wrapped_twice =
     \<lparr>atoms = \<lparr>pos = [(- (3196621 / 2000000), 5, 5)]\<rparr>,
      box = \<lparr>vects = ((1104601 / 100000, 0, 0), (0, 10, 0), (0, 0, 10)),
             origin = (- (104601 / 100000), 0, 0)\<rparr>,
      pbc = [False, True, True], props = Map.empty\<rparr>"

text \<open>
  A System whose property dictionary already holds a neighbor list, and a function in
  the place of \<open>atomman.tools.nlist\<close> that rejects a cutoff that is not positive.
\<close>

definition listed_system :: "int list list system" where
  "listed_system = unit_system\<lparr>props := [''nlist'' \<mapsto> [[7]], ''note'' \<mapsto> []]\<rparr>"

definition pair_nlist :: "int list list system \<Rightarrow> real \<Rightarrow> int \<Rightarrow> error + int list list" where
  "pair_nlist s cutoff cmult =
     (if cutoff \<le> 0 then Inl (ExternalError ''InvalidCutoffError'') else Inr [[1], [0]])"

text \<open>
  A function in the place of \<open>Atoms.prop\<close>, for the property \<open>pos\<close> of all atoms
  (\<open>a_id=None\<close>, the selection is the key): without a value it returns the positions,
  with one row per atom it assigns them, and anything else is refused.
\<close>

definition pos_prop :: "string \<Rightarrow> varray option \<Rightarrow> atoms \<Rightarrow> error + varray option \<times> atoms" where
  "pos_prop key val a =
     (if key \<noteq> ''pos'' then Inl (ExternalError ''unknown key'')
      else (case val of
              None \<Rightarrow> Inr (Some (Vecs (pos a)), a)
            | Some (Vec v) \<Rightarrow> Inl (ExternalError ''one row per atom'')
            | Some (Vecs vs) \<Rightarrow>
                (if length vs = length (pos a) then Inr (None, a\<lparr>pos := vs\<rparr>)
                 else Inl (ExternalError ''one row per atom''))))"

section \<open>Linear algebra of the embedding\<close>

lemma mat3_cases:
  obtains a1 a2 a3 b1 b2 b3 c1 c2 c3 :: real
  where "m = ((a1, a2, a3), (b1, b2, b3), (c1, c2, c3))"
  by (metis prod.exhaust)

lemma vdot_assoc: "vdot (vdot v a) b = vdot v (mdot a b)"
  by (cases v rule: prod_cases3; cases a rule: mat3_cases; cases b rule: mat3_cases)
     (simp add: algebra_simps)

lemma vdot_identity3 [simp]: "vdot v identity3 = v"
  by (cases v rule: prod_cases3) (simp add: identity3_def)

lemma mdot_adjugate3:
  "mdot m (adjugate3 m) = ((det3 m, 0, 0), (0, det3 m, 0), (0, 0, det3 m))"
  by (cases m rule: mat3_cases) (simp add: algebra_simps)

lemma adjugate3_mdot:
  "mdot (adjugate3 m) m = ((det3 m, 0, 0), (0, det3 m, 0), (0, 0, det3 m))"
  by (cases m rule: mat3_cases) (simp add: algebra_simps)

lemma vdot_vscale_right:
  "vdot v (vscale r1 k, vscale r2 k, vscale r3 k) = vscale (vdot v (r1, r2, r3)) k"
  by (cases v rule: prod_cases3; cases r1 rule: prod_cases3; cases r2 rule: prod_cases3;
      cases r3 rule: prod_cases3) (simp add: algebra_simps)

lemma vdot_vscale_left: "vdot (vscale v k) m = vscale (vdot v m) k"
  by (cases v rule: prod_cases3; cases m rule: mat3_cases) (simp add: algebra_simps)

text \<open>What \<open>np.linalg.inv\<close> returns for a non-singular matrix is an inverse of it.\<close>

lemma linalg_inv_is_inverse:
  assumes "det3 m \<noteq> 0"
  obtains n where "linalg_inv m = Inr n" and "is_inverse n m"
proof -
  obtain r1 r2 r3 where adj: "adjugate3 m = (r1, r2, r3)"
    by (cases "adjugate3 m" rule: prod_cases3)
  define k where "k = 1 / det3 m"
  define n where "n = (vscale r1 k, vscale r2 k, vscale r3 k)"
  have k: "det3 m * k = 1" using assms by (simp add: k_def)
  have inv: "linalg_inv m = Inr n"
    using assms by (simp add: linalg_inv_def adj n_def k_def)
  obtain m1 m2 m3 where m: "m = (m1, m2, m3)" by (cases m rule: prod_cases3)
  have "mdot m (r1, r2, r3) = ((det3 m, 0, 0), (0, det3 m, 0), (0, 0, det3 m))"
    using mdot_adjugate3 [of m] by (simp add: adj)
  then have right: "mdot m n = identity3"
    using k by (simp add: m n_def vdot_vscale_right identity3_def)
  have "mdot (r1, r2, r3) m = ((det3 m, 0, 0), (0, det3 m, 0), (0, 0, det3 m))"
    using adjugate3_mdot [of m] by (simp add: adj)
  then have left: "mdot n m = identity3"
    using k by (simp add: n_def vdot_vscale_left identity3_def)
  show thesis using that inv left right by (simp add: is_inverse_def)
qed

lemma is_inverse_unique:
  assumes "is_inverse n m" and "is_inverse n' m"
  shows "n = n'"
proof -
  have "vdot v n = vdot v n'" for v
  proof -
    have "vdot v n = vdot (vdot v (mdot n' m)) n" using assms by (simp add: is_inverse_def)
    also have "\<dots> = vdot (vdot (vdot v n') m) n" by (simp only: vdot_assoc)
    also have "\<dots> = vdot (vdot v n') (mdot m n)" by (rule vdot_assoc)
    also have "\<dots> = vdot v n'" using assms by (simp add: is_inverse_def)
    finally show ?thesis .
  qed
  from this [of "(1,0,0)"] this [of "(0,1,0)"] this [of "(0,0,1)"]
  show ?thesis
    by (cases n rule: mat3_cases; cases n' rule: mat3_cases) simp
qed

lemma vadd_vsub_cancel [simp]: "vadd (vsub v w) w = v"
  by (cases v rule: prod_cases3; cases w rule: prod_cases3) simp

lemma vsub_vadd_cancel [simp]: "vsub (vadd v w) w = v"
  by (cases v rule: prod_cases3; cases w rule: prod_cases3) simp

lemma varray_map_comp: "varray_map f (varray_map g a) = varray_map (\<lambda>v. f (g v)) a"
  by (cases a) simp_all

lemma varray_map_ident [simp]: "varray_map (\<lambda>v. v) a = a"
  by (cases a) simp_all

section \<open>scale and unscale\<close>

text \<open>
  With an invertible lattice \<open>scale\<close> raises nothing, works row by row, and is the
  inverse of \<open>unscale\<close> on both sides.
\<close>

lemma scale_inverts:
  assumes "det3 (vects (box s)) \<noteq> 0"
  shows "\<exists>f. (\<forall>a. scale s a = Inr (varray_map f a)) \<and>
             (\<forall>a. unscale s (varray_map f a) = a) \<and>
             (\<forall>a. varray_map f (unscale s a) = a)"
proof -
  obtain n where n: "linalg_inv (vects (box s)) = Inr n" and inv: "is_inverse n (vects (box s))"
    using assms by (rule linalg_inv_is_inverse)
  define f where "f = (\<lambda>v. vdot (vsub v (origin (box s))) n)"
  have 1: "scale s a = Inr (varray_map f a)" for a
    by (simp add: scale_def n f_def)
  have 2: "unscale s (varray_map f a) = a" for a
    using inv by (simp add: unscale_def f_def varray_map_comp vdot_assoc is_inverse_def)
  have 3: "varray_map f (unscale s a) = a" for a
    using inv by (simp add: unscale_def f_def varray_map_comp vdot_assoc is_inverse_def)
  show ?thesis using 1 2 3 by blast
qed

text \<open>
  Claim C4. For a System whose box lattice matrix is invertible and every 3-vector or
  array of 3-vectors \<open>v\<close>, \<open>scale(v)\<close> returns a value and \<open>unscale\<close> of it is \<open>v\<close>, in
  exact real arithmetic.
\<close>

theorem unscale_scale_identity:
  assumes "det3 (vects (box s)) \<noteq> 0"
  shows "\<exists>w. scale s v = Inr w \<and> unscale s w = v"
proof -
  obtain f where "\<forall>a. scale s a = Inr (varray_map f a)" and "\<forall>a. unscale s (varray_map f a) = a"
    using scale_inverts [OF assms] by blast
  then show ?thesis by simp
qed

theorem unscale_scale_identity_witness:
  "det3 (vects (box skew_system)) \<noteq> 0 \<and>
   (\<exists>w. scale skew_system (Vecs [(3, 4, 5), (0, 0, 0)]) = Inr w \<and>
        unscale skew_system w = Vecs [(3, 4, 5), (0, 0, 0)])"
  using unscale_scale_identity [of skew_system "Vecs [(3, 4, 5), (0, 0, 0)]"]
  by (simp add: skew_system_def)

text \<open>
  Claim C5. For a System whose box lattice matrix is invertible, with \<open>n\<close> any inverse of
  the lattice matrix: \<open>scale(v)\<close> is \<open>(v - origin) . n\<close> on every row of \<open>v\<close>, with nothing
  clipped to the box, and \<open>unscale(v)\<close> is \<open>v . lattice + origin\<close> on every row.
\<close>

theorem scale_unscale_formulas:
  assumes "det3 (vects (box s)) \<noteq> 0" and "is_inverse n (vects (box s))"
  shows "scale s v = Inr (varray_map (\<lambda>x. vdot (vsub x (origin (box s))) n) v) \<and>
         unscale s v = varray_map (\<lambda>x. vadd (vdot x (vects (box s))) (origin (box s))) v"
proof -
  obtain n' where n': "linalg_inv (vects (box s)) = Inr n'" and "is_inverse n' (vects (box s))"
    using assms(1) by (rule linalg_inv_is_inverse)
  then have "n' = n" using assms(2) by (simp add: is_inverse_unique)
  then show ?thesis using n' by (simp add: scale_def unscale_def)
qed

text \<open>The first atom of the example lies outside the box: its scaled position is not clipped.\<close>

theorem scale_unscale_formulas_witness:
  "det3 (vects (box skew_system)) \<noteq> 0 \<and>
   is_inverse ((1/2, 0, 0), (-1/6, 1/3, 0), (0, 0, 1/4)) (vects (box skew_system)) \<and>
   scale skew_system (Vec (3, 11, 9)) = Inr (Vec (-2/3, 10/3, 2)) \<and>
   unscale skew_system (Vec (1/2, 1, 1)) = Vec (3, 4, 5)"
  using scale_unscale_formulas [of skew_system "((1/2, 0, 0), (-1/6, 1/3, 0), (0, 0, 1/4))" "Vec (3, 11, 9)"]
    scale_unscale_formulas [of skew_system "((1/2, 0, 0), (-1/6, 1/3, 0), (0, 0, 1/4))" "Vec (1/2, 1, 1)"]
  by (simp add: skew_system_def is_inverse_def identity3_def)


section \<open>Changing the box\<close>

lemma unscale_box_cong: "box s = box t \<Longrightarrow> unscale s = unscale t"
  by (rule ext) (simp add: unscale_def)

lemma unscale_Vecs: "\<exists>ys. unscale s (Vecs xs) = Vecs ys \<and> length ys = length xs"
  by (simp add: unscale_def)

text \<open>
  The three steps shared by \<open>box_set\<close> and \<open>box_normalize\<close>: scale the positions in the
  old box, replace the box, unscale into the position array. The scaled positions in
  the new box are those of the old one.
\<close>

lemma rescale_into_new_box:
  assumes old: "det3 (vects (box s)) \<noteq> 0" and new: "det3 (vects b) \<noteq> 0"
  shows "\<exists>sp a. scale s (Vecs (pos (atoms s))) = Inr sp \<and>
                assign_pos (atoms s) (unscale (s\<lparr>box := b\<rparr>) sp) = Inr a \<and>
                scale (s\<lparr>box := b, atoms := a\<rparr>) (Vecs (pos a)) = Inr sp"
proof -
  obtain f where f: "\<forall>a. scale s a = Inr (varray_map f a)"
    using scale_inverts [OF old] by blast
  let ?sp = "Vecs (map f (pos (atoms s)))"
  have sp: "scale s (Vecs (pos (atoms s))) = Inr ?sp" using f by simp
  obtain ys where ys: "unscale (s\<lparr>box := b\<rparr>) ?sp = Vecs ys" and len: "length ys = length (pos (atoms s))"
    using unscale_Vecs [of "s\<lparr>box := b\<rparr>" "map f (pos (atoms s))"] by auto
  let ?a = "(atoms s)\<lparr>pos := ys\<rparr>"
  let ?t = "s\<lparr>box := b, atoms := ?a\<rparr>"
  have asg: "assign_pos (atoms s) (unscale (s\<lparr>box := b\<rparr>) ?sp) = Inr ?a"
    using ys len by simp
  have "det3 (vects (box ?t)) \<noteq> 0" using new by simp
  then obtain g where g1: "\<forall>a. scale ?t a = Inr (varray_map g a)"
    and g2: "\<forall>a. varray_map g (unscale ?t a) = a"
    using scale_inverts [of ?t] by blast
  have "unscale ?t = unscale (s\<lparr>box := b\<rparr>)" by (rule unscale_box_cong) simp
  then have "Vecs ys = unscale ?t ?sp" using ys by simp
  then have "scale ?t (Vecs ys) = Inr ?sp" using g1 g2 by simp
  then have "scale ?t (Vecs (pos ?a)) = Inr ?sp" by simp
  then show ?thesis using sp asg by blast
qed

text \<open>
  Claim C8. For a System whose box lattice matrix is invertible, when \<open>Box.normalize\<close>
  returns a box \<open>b\<close> with an invertible lattice matrix, \<open>box_normalize()\<close> succeeds, the
  box is \<open>b\<close>, and the scaled positions of the atoms computed after the call equal those
  computed before it.
\<close>

theorem box_normalize_keeps_scaled_positions:
  assumes "det3 (vects (box s)) \<noteq> 0"
    and "Box_normalize (box s) = Inr b"
    and "det3 (vects b) \<noteq> 0"
  shows "\<exists>s'. box_normalize Box_normalize s = Inr s' \<and> box s' = b \<and>
              scale s' (Vecs (pos (atoms s'))) = scale s (Vecs (pos (atoms s)))"
proof -
  obtain sp a where "scale s (Vecs (pos (atoms s))) = Inr sp"
    and "assign_pos (atoms s) (unscale (s\<lparr>box := b\<rparr>) sp) = Inr a"
    and "scale (s\<lparr>box := b, atoms := a\<rparr>) (Vecs (pos a)) = Inr sp"
    using rescale_into_new_box [OF assms(1) assms(3)] by blast
  then show ?thesis using assms(2) by (simp add: box_normalize_def)
qed

theorem box_normalize_keeps_scaled_positions_witness:
  "det3 (vects (box rotated_system)) \<noteq> 0 \<and>
   rotated_normalize (box rotated_system) =
     Inr \<lparr>vects = ((2, 0, 0), (0, 3, 0), (0, 0, 4)), origin = (1, 0, 0)\<rparr> \<and>
   det3 ((2, 0, 0), (0, 3, 0), (0, 0, 4)) \<noteq> 0 \<and>
   (\<exists>s'. box_normalize rotated_normalize rotated_system = Inr s' \<and>
         pos (atoms s') = [(2, 2, 2), (1, -3, 1)] \<and>
         scale s' (Vecs (pos (atoms s'))) = Inr (Vecs [(1/2, 2/3, 1/2), (0, -1, 1/4)]) \<and>
         scale rotated_system (Vecs (pos (atoms rotated_system))) =
           Inr (Vecs [(1/2, 2/3, 1/2), (0, -1, 1/4)]))"
  using box_normalize_keeps_scaled_positions
    [of rotated_system rotated_normalize "\<lparr>vects = ((2, 0, 0), (0, 3, 0), (0, 0, 4)), origin = (1, 0, 0)\<rparr>"]
  by (simp add: rotated_system_def rotated_normalize_def box_normalize_def scale_def
      unscale_def linalg_inv_def)

subsection \<open>box\_set\<close>

text \<open>
  The keyword \<open>scale\<close> is popped and never read: the branch is chosen by the string
  \<open>'scale'\<close>, which is true, so both values of the keyword run the rescaling branch.
\<close>

lemma box_set_keyword_unused: "box_set Box_set True s = box_set Box_set False s"
  by (simp add: box_set_def)

lemma box_set_keeps_scaled_positions:
  assumes "det3 (vects (box s)) \<noteq> 0"
    and "Box_set (box s) = Inr b"
    and "det3 (vects b) \<noteq> 0"
  shows "\<exists>s'. box_set Box_set scale_kw s = Inr s' \<and> box s' = b \<and>
              scale s' (Vecs (pos (atoms s'))) = scale s (Vecs (pos (atoms s)))"
proof -
  obtain sp a where "scale s (Vecs (pos (atoms s))) = Inr sp"
    and "assign_pos (atoms s) (unscale (s\<lparr>box := b\<rparr>) sp) = Inr a"
    and "scale (s\<lparr>box := b, atoms := a\<rparr>) (Vecs (pos a)) = Inr sp"
    using rescale_into_new_box [OF assms(1) assms(3)] by blast
  then show ?thesis using assms(2) by (simp add: box_set_def truthy_str_def)
qed

lemmas eval_defs = wrap_def scale_def linalg_inv_def wrap_axis_def unscale_def
  box_set_def truthy_str_def Box_set_vectors_def avect_def bvect_def cvect_def

text \<open>
  Claim C1. The claim has \<open>box_set\<close> with \<open>scale=False\<close> leave the absolute positions as
  they are. On the unit box with one atom at (1/2, 1/2, 1/2), setting the box to the
  cube of side 2 with \<open>scale=False\<close> moves the atom to (1, 1, 1): the scaled position
  is kept, not the absolute one.
\<close>

theorem box_set_scale_False_moves_atom:
  "box_set (Box_set_vectors (2, 0, 0) (0, 2, 0) (0, 0, 2) (0, 0, 0)) False unit_system =
     Inr \<lparr>atoms = \<lparr>pos = [(1, 1, 1)]\<rparr>,
          box = \<lparr>vects = ((2, 0, 0), (0, 2, 0), (0, 0, 2)), origin = (0, 0, 0)\<rparr>,
          pbc = [True, True, True], props = Map.empty\<rparr> \<and>
   pos (atoms unit_system) = [(1/2, 1/2, 1/2)]"
  by (simp add: unit_system_def eval_defs)

section \<open>wrap\<close>

lemma wrap_cubic_system: "wrap cubic_system = Inr cubic_wrapped_once"
  by (simp add: cubic_system_def cubic_wrapped_once_def eval_defs)

lemma wrap_cubic_wrapped_once: "wrap cubic_wrapped_once = Inr cubic_wrapped_twice"
  by (simp add: cubic_wrapped_once_def cubic_wrapped_twice_def eval_defs)

text \<open>
  Claim C2. The claim has a second \<open>wrap()\<close> change nothing. On the cubic box that is
  not periodic along x, with its atom at x = -0.5, the first call gives a box from
  x = -0.51 with the atom at x = -1.0355, still outside it, and the second call gives
  another box and another position.
\<close>

theorem wrap_twice_changes_again:
  "wrap cubic_system = Inr cubic_wrapped_once \<and>
   wrap cubic_wrapped_once = Inr cubic_wrapped_twice \<and>
   box cubic_wrapped_twice \<noteq> box cubic_wrapped_once \<and>
   pos (atoms cubic_wrapped_twice) \<noteq> pos (atoms cubic_wrapped_once)"
  using wrap_cubic_system wrap_cubic_wrapped_once
  by (simp add: cubic_wrapped_once_def cubic_wrapped_twice_def)

text \<open>
  Claim C3. The scenario of the claim: x not periodic, box from x = 0 to x = 10, one atom
  at x = -0.5. After \<open>wrap()\<close> the box starts at x = -0.51, which is below -0.501 as the
  claim says, and the atom is at x = -1.0355, not at -0.5.
\<close>

theorem wrap_nonperiodic_scenario:
  "xlo (box cubic_system) = 0 \<and> xhi (box cubic_system) = 10 \<and>
   pos (atoms cubic_system) = [(-1/2, 5, 5)] \<and>
   wrap cubic_system = Inr cubic_wrapped_once \<and>
   xlo (box cubic_wrapped_once) = - (51 / 100) \<and>
   xlo (box cubic_wrapped_once) \<le> - (501 / 1000) \<and>
   pos (atoms cubic_wrapped_once) = [(- (2071 / 2000), 5, 5)]"
  using wrap_cubic_system
  by (simp add: cubic_system_def cubic_wrapped_once_def xlo_def xhi_def avect_def)


section \<open>nlist\<close>

lemma nlist_listed_system: "\<exists>s'. nlist pair_nlist 1 1 listed_system = Inr (None, s')"
  by (simp add: nlist_def pair_nlist_def)

text \<open>
  Claim C6. After a successful call of \<open>nlist(cutoff, cmult)\<close> the neighbor list that was
  computed is bound to the key \<open>'nlist'\<close> of the property dictionary, whatever was
  bound to that key before, and a lookup of the key returns it.
\<close>

theorem nlist_stored_under_key:
  assumes "nlist tools_nlist cutoff cmult s = Inr (r, s')"
  shows "\<exists>nl. tools_nlist s cutoff cmult = Inr nl \<and> props s' ''nlist'' = Some nl"
  using assms by (auto simp: nlist_def split: sum.splits)

theorem nlist_stored_under_key_witness:
  "props listed_system ''nlist'' = Some [[7]] \<and>
   (\<exists>s'. nlist pair_nlist 1 1 listed_system = Inr (None, s') \<and>
         pair_nlist listed_system 1 1 = Inr [[1], [0]] \<and>
         props s' ''nlist'' = Some [[1], [0]])"
proof -
  obtain s' where run: "nlist pair_nlist 1 1 listed_system = Inr (None, s')"
    using nlist_listed_system by blast
  have "\<exists>nl. pair_nlist listed_system 1 1 = Inr nl \<and> props s' ''nlist'' = Some nl"
    using run by (rule nlist_stored_under_key)
  then have "props s' ''nlist'' = Some [[1], [0]]" by (simp add: pair_nlist_def)
  then show ?thesis using run by (simp add: pair_nlist_def listed_system_def)
qed

text \<open>
  Claim C10. A successful call of \<open>nlist(cutoff, cmult)\<close> returns \<open>None\<close>; the atoms, the
  box and the pbc flags of the System are as before, and so is every key of the
  property dictionary other than \<open>'nlist'\<close>.
\<close>

theorem nlist_returns_None_and_frame:
  assumes "nlist tools_nlist cutoff cmult s = Inr (r, s')"
  shows "r = None \<and> atoms s' = atoms s \<and> box s' = box s \<and> pbc s' = pbc s \<and>
         (\<forall>k. k \<noteq> ''nlist'' \<longrightarrow> props s' k = props s k)"
  using assms by (auto simp: nlist_def split: sum.splits)

theorem nlist_returns_None_and_frame_witness:
  "\<exists>r s'. nlist pair_nlist 1 1 listed_system = Inr (r, s') \<and> r = None \<and>
          atoms s' = atoms listed_system \<and> box s' = box listed_system \<and>
          pbc s' = pbc listed_system \<and> ''note'' \<noteq> ''nlist'' \<and>
          props s' ''note'' = props listed_system ''note''"
proof -
  obtain s' where run: "nlist pair_nlist 1 1 listed_system = Inr (None, s')"
    using nlist_listed_system by blast
  show ?thesis
    using run nlist_returns_None_and_frame [OF run] by simp
qed


section \<open>The pbc flags\<close>

lemma shape_scalar: "shape x = Some [] \<Longrightarrow> \<exists>e. x = El e"
  by (cases x) (auto split: list.splits option.splits if_splits)

text \<open>An array of shape \<open>(n,)\<close> has \<open>n\<close> entries.\<close>

lemma shape_one_dim:
  assumes "shape v = Some [n]"
  shows "length (entries v) = n"
proof (cases v)
  case (El e)
  then show ?thesis using assms by simp
next
  case (Arr xs)
  show ?thesis
  proof (cases xs)
    case Nil
    then show ?thesis using assms Arr by simp
  next
    case (Cons y ys)
    have len: "length xs = n" and hd: "shape y = Some []"
      and tl: "list_all (\<lambda>t. t = Some []) (map shape ys)"
      using assms Arr Cons by (auto split: option.splits if_splits)
    have "\<forall>x\<in>set xs. shape x = Some []"
      using hd tl Cons by (auto simp: list_all_iff)
    then have "\<forall>x\<in>set xs. length (entries x) = 1"
      using shape_scalar by fastforce
    then have "map (\<lambda>x. length (entries x)) xs = replicate (length xs) 1"
      by (induction xs) auto
    then have "length (concat (map entries xs)) = length xs"
      by (simp add: length_concat comp_def sum_list_replicate)
    then show ?thesis using Arr len by simp
  qed
qed

lemma pbc_setter_length:
  "pbc_setter v s = Inr s' \<Longrightarrow> length (pbc s') = 3 \<and> length (entries v) = 3"
  by (auto simp: pbc_setter_def shape_one_dim split: option.splits if_splits)

lemma System_init_length:
  "snd (System_init a b v sc p) = Inr s' \<Longrightarrow> length (pbc s') = 3 \<and> length (entries v) = 3"
  by (auto simp: System_init_def Let_def dest: pbc_setter_length split: sum.splits if_splits)

lemma box_set_pbc: "box_set B k s = Inr s' \<Longrightarrow> pbc s' = pbc s"
  by (auto simp: box_set_def split: sum.splits if_splits)

lemma box_normalize_pbc: "box_normalize N s = Inr s' \<Longrightarrow> pbc s' = pbc s"
  by (auto simp: box_normalize_def split: sum.splits)

lemma wrap_pbc: "wrap s = Inr s' \<Longrightarrow> pbc s' = pbc s"
  by (auto simp: wrap_def Let_def dest!: box_set_pbc split: sum.splits varray.splits)

lemma nlist_pbc: "nlist T c m s = Inr (r, s') \<Longrightarrow> pbc s' = pbc s"
  by (auto simp: nlist_def split: sum.splits)

lemma atoms_prop_pbc: "atoms_prop P q v k s = Inr (r, s') \<Longrightarrow> pbc s' = pbc s"
  by (auto simp: atoms_prop_def split: sum.splits if_splits option.splits prod.splits)

text \<open>
  What the constructor leaves of the caller's Atoms, whether it raises or not: with
  \<open>scale=True\<close> the positions have been unscaled in place, otherwise they are as given.
\<close>

lemma System_init_atoms:
  "fst (System_init a b v sc p) =
     (if sc then a\<lparr>pos := map (\<lambda>x. vadd (vdot x (vects b)) (origin b)) (pos a)\<rparr> else a)"
  by (auto simp: System_init_def Let_def unscale_def split: sum.splits)

text \<open>
  The constructor on the triclinic example with \<open>scale=True\<close> and a \<open>pbc\<close> of two
  entries: it raises, and the caller's Atoms have been rewritten before it does.
\<close>

theorem System_init_mutates_before_failing:
  "snd (System_init (atoms skew_system) (box skew_system) (Arr [El True, El False]) True
         (Map.empty :: string \<rightharpoonup> int list list)) = Inl AssertionError \<and>
   pos (atoms skew_system) = [(3, 4, 5), (0, 0, 0)] \<and>
   pos (fst (System_init (atoms skew_system) (box skew_system) (Arr [El True, El False]) True
         (Map.empty :: string \<rightharpoonup> int list list))) = [(11, 13, 21), (1, 1, 1)] \<and>
   fst (System_init (atoms skew_system) (box skew_system) (Arr [El True, El False]) True
         (Map.empty :: string \<rightharpoonup> int list list)) \<noteq> atoms skew_system"
  by (simp add: System_init_def skew_system_def unscale_def pbc_setter_def)

text \<open>
  Claim C7, as amended. \<open>pbc\<close> holds exactly 3 entries: the setter of \<open>pbc\<close> and the
  constructor raise for a value \<open>v\<close> that does not have exactly 3 entries; where they
  succeed (for a value \<open>w\<close>) the stored \<open>pbc\<close> has 3 entries; and \<open>box_set\<close>,
  \<open>box_normalize\<close>, \<open>wrap\<close>, \<open>nlist\<close> and \<open>atoms_prop\<close> leave a \<open>pbc\<close> of 3 entries at 3
  entries. When the constructor raises, the caller's Atoms are untouched if \<open>scale\<close> is
  not \<open>True\<close>; with \<open>scale=True\<close> their positions have already been unscaled in place.
\<close>

theorem pbc_has_three_entries:
  "(length (entries v) \<noteq> 3 \<longrightarrow>
      (\<exists>e. pbc_setter v s = Inl e) \<and>
      (\<exists>e. snd (System_init a b v sc p) = Inl e) \<and>
      (\<not> sc \<longrightarrow> fst (System_init a b v sc p) = a) \<and>
      (sc \<longrightarrow> fst (System_init a b v sc p) =
                a\<lparr>pos := map (\<lambda>x. vadd (vdot x (vects b)) (origin b)) (pos a)\<rparr>)) \<and>
   (pbc_setter w s = Inr s1 \<longrightarrow> length (pbc s1) = 3) \<and>
   (snd (System_init a b w sc p) = Inr s2 \<longrightarrow> length (pbc s2) = 3) \<and>
   (length (pbc s) = 3 \<longrightarrow>
      (box_set B k s = Inr s3 \<longrightarrow> length (pbc s3) = 3) \<and>
      (box_normalize N s = Inr s4 \<longrightarrow> length (pbc s4) = 3) \<and>
      (wrap s = Inr s5 \<longrightarrow> length (pbc s5) = 3) \<and>
      (nlist T c m s = Inr (r6, s6) \<longrightarrow> length (pbc s6) = 3) \<and>
      (atoms_prop P q val kw s = Inr (r7, s7) \<longrightarrow> length (pbc s7) = 3))"
proof -
  have setter: "\<exists>e. pbc_setter v s = Inl e" if "length (entries v) \<noteq> 3"
    using that pbc_setter_length [of v s] by (cases "pbc_setter v s") auto
  have init: "\<exists>e. snd (System_init a b v sc p) = Inl e" if "length (entries v) \<noteq> 3"
    using that System_init_length [of a b v sc p] by (cases "snd (System_init a b v sc p)") auto
  have kept: "\<not> sc \<longrightarrow> fst (System_init a b v sc p) = a"
    by (simp add: System_init_atoms)
  have rescaled: "sc \<longrightarrow> fst (System_init a b v sc p) =
      a\<lparr>pos := map (\<lambda>x. vadd (vdot x (vects b)) (origin b)) (pos a)\<rparr>"
    by (simp add: System_init_atoms)
  have failing: "length (entries v) \<noteq> 3 \<longrightarrow>
      (\<exists>e. pbc_setter v s = Inl e) \<and>
      (\<exists>e. snd (System_init a b v sc p) = Inl e) \<and>
      (\<not> sc \<longrightarrow> fst (System_init a b v sc p) = a) \<and>
      (sc \<longrightarrow> fst (System_init a b v sc p) =
                a\<lparr>pos := map (\<lambda>x. vadd (vdot x (vects b)) (origin b)) (pos a)\<rparr>)"
    using setter init kept rescaled by blast
  have stored: "(pbc_setter w s = Inr s1 \<longrightarrow> length (pbc s1) = 3) \<and>
      (snd (System_init a b w sc p) = Inr s2 \<longrightarrow> length (pbc s2) = 3)"
    using pbc_setter_length [of w s s1] System_init_length [of a b w sc p s2] by blast
  have kept_three: "length (pbc s) = 3 \<longrightarrow>
      (box_set B k s = Inr s3 \<longrightarrow> length (pbc s3) = 3) \<and>
      (box_normalize N s = Inr s4 \<longrightarrow> length (pbc s4) = 3) \<and>
      (wrap s = Inr s5 \<longrightarrow> length (pbc s5) = 3) \<and>
      (nlist T c m s = Inr (r6, s6) \<longrightarrow> length (pbc s6) = 3) \<and>
      (atoms_prop P q val kw s = Inr (r7, s7) \<longrightarrow> length (pbc s7) = 3)"
    using box_set_pbc [of B k s s3] box_normalize_pbc [of N s s4] wrap_pbc [of s s5]
      nlist_pbc [of T c m s r6 s6] atoms_prop_pbc [of P q val kw s r7 s7]
    by simp
  show ?thesis
    by (intro conjI failing conjunct1 [OF stored] conjunct2 [OF stored] kept_three)
qed

theorem pbc_has_three_entries_witness:
  "length (entries (Arr [El True, El False])) \<noteq> 3 \<and>
   pbc_setter (Arr [El True, El False]) unit_system = Inl AssertionError \<and>
   System_init (atoms skew_system) (box skew_system) (Arr [El True, El False]) True
       (Map.empty :: string \<rightharpoonup> int list list) =
     (\<lparr>pos = [(11, 13, 21), (1, 1, 1)]\<rparr>, Inl AssertionError) \<and>
   System_init (atoms skew_system) (box skew_system) (Arr [El True, El False]) False
       (Map.empty :: string \<rightharpoonup> int list list) =
     (\<lparr>pos = [(3, 4, 5), (0, 0, 0)]\<rparr>, Inl AssertionError) \<and>
   pbc_setter (Arr [El True, El False, El True]) unit_system =
     Inr (unit_system\<lparr>pbc := [True, False, True]\<rparr>) \<and>
   length (pbc (unit_system\<lparr>pbc := [True, False, True]\<rparr>)) = 3 \<and>
   snd (System_init (atoms skew_system) (box skew_system) (Arr [El True, El False, El True])
       True (Map.empty :: string \<rightharpoonup> int list list)) =
     Inr (skew_system\<lparr>atoms := \<lparr>pos = [(11, 13, 21), (1, 1, 1)]\<rparr>, pbc := [True, False, True]\<rparr>) \<and>
   length (pbc unit_system) = 3 \<and>
   (\<exists>s3 s4 s5 s6 r7 s7.
      box_set (Box_set_vectors (2, 0, 0) (0, 2, 0) (0, 0, 2) (0, 0, 0)) False unit_system = Inr s3 \<and>
      length (pbc s3) = 3 \<and>
      box_normalize rotated_normalize unit_system = Inr s4 \<and> length (pbc s4) = 3 \<and>
      wrap unit_system = Inr s5 \<and> length (pbc s5) = 3 \<and>
      nlist pair_nlist 1 1 unit_system = Inr (None, s6) \<and> length (pbc s6) = 3 \<and>
      atoms_prop pos_prop ''pos'' None True unit_system = Inr (r7, s7) \<and>
      r7 = Some (Vecs [(1/2, 1/2, 1/2)]) \<and> length (pbc s7) = 3)"
proof -
  let ?v = "Arr [El True, El False]" and ?w = "Arr [El True, El False, El True]"
  let ?B = "Box_set_vectors (2, 0, 0) (0, 2, 0) (0, 0, 2) (0, 0, 0)"
  let ?p = "Map.empty :: string \<rightharpoonup> int list list"
  let ?a = "atoms skew_system" and ?b = "box skew_system"
  let ?s1 = "unit_system\<lparr>pbc := [True, False, True]\<rparr>"
  let ?s2 = "skew_system\<lparr>atoms := \<lparr>pos = [(11, 13, 21), (1, 1, 1)]\<rparr>, pbc := [True, False, True]\<rparr>"
  have bad: "length (entries ?v) \<noteq> 3" by simp
  have good_set: "pbc_setter ?w unit_system = Inr ?s1"
    by (simp add: pbc_setter_def)
  have good_init: "snd (System_init ?a ?b ?w True ?p) = Inr ?s2"
    by (simp add: System_init_def skew_system_def unscale_def pbc_setter_def)
  have three: "length (pbc unit_system) = 3" by (simp add: unit_system_def)
  obtain s3 where s3: "box_set ?B False unit_system = Inr s3"
    by (simp add: unit_system_def eval_defs)
  obtain s4 where s4: "box_normalize rotated_normalize unit_system = Inr s4"
    by (simp add: unit_system_def box_normalize_def rotated_normalize_def scale_def
        unscale_def linalg_inv_def)
  obtain s5 where s5: "wrap unit_system = Inr s5"
    by (simp add: unit_system_def eval_defs)
  obtain s6 where s6: "nlist pair_nlist 1 1 unit_system = Inr (None, s6)"
    by (simp add: nlist_def pair_nlist_def)
  obtain s7 where s7: "atoms_prop pos_prop ''pos'' None True unit_system =
      Inr (Some (Vecs [(1/2, 1/2, 1/2)]), s7)"
    by (simp add: atoms_prop_def pos_prop_def scale_def linalg_inv_def unit_system_def)
  note on_True = pbc_has_three_entries [of ?v unit_system ?a ?b True ?p ?w ?s1 ?s2
      ?B False s3 rotated_normalize s4 s5 pair_nlist 1 1 None s6
      pos_prop "''pos''" None True "Some (Vecs [(1/2, 1/2, 1/2)])" s7]
  note on_False = pbc_has_three_entries [of ?v unit_system ?a ?b False ?p ?w ?s1 ?s2
      ?B False s3 rotated_normalize s4 s5 pair_nlist 1 1 None s6
      pos_prop "''pos''" None True "Some (Vecs [(1/2, 1/2, 1/2)])" s7]
  have bad_set: "pbc_setter ?v unit_system = Inl AssertionError"
    using on_True bad by (simp add: pbc_setter_def)
  have fails_True: "snd (System_init ?a ?b ?v True ?p) = Inl AssertionError"
    using on_True bad by (simp add: System_init_def skew_system_def unscale_def pbc_setter_def)
  have atoms_True: "fst (System_init ?a ?b ?v True ?p) = \<lparr>pos = [(11, 13, 21), (1, 1, 1)]\<rparr>"
    using on_True bad by (simp add: skew_system_def)
  have bad_True: "System_init ?a ?b ?v True ?p = (\<lparr>pos = [(11, 13, 21), (1, 1, 1)]\<rparr>, Inl AssertionError)"
    using fails_True atoms_True by (simp add: prod_eq_iff)
  have fails_False: "snd (System_init ?a ?b ?v False ?p) = Inl AssertionError"
    using on_False bad by (simp add: System_init_def skew_system_def pbc_setter_def)
  have atoms_False: "fst (System_init ?a ?b ?v False ?p) = \<lparr>pos = [(3, 4, 5), (0, 0, 0)]\<rparr>"
    using on_False bad by (simp add: skew_system_def)
  have bad_False: "System_init ?a ?b ?v False ?p = (\<lparr>pos = [(3, 4, 5), (0, 0, 0)]\<rparr>, Inl AssertionError)"
    using fails_False atoms_False by (simp add: prod_eq_iff)
  have lens: "length (pbc s3) = 3 \<and> length (pbc s4) = 3 \<and> length (pbc s5) = 3 \<and>
      length (pbc s6) = 3 \<and> length (pbc s7) = 3"
    using on_True three s3 s4 s5 s6 s7 by blast
  have stored: "length (pbc ?s1) = 3"
    using on_True good_set by blast
  show ?thesis
    using bad bad_set bad_True bad_False good_set good_init three stored lens s3 s4 s5 s6 s7
    by blast
qed

section \<open>dvect\<close>

text \<open>
  An argument of the default integer dtype is replaced by the rows of the position
  array that it indexes, and an argument of a dtype that is not an integer dtype is
  handed on as it is.
\<close>

lemma resolve_default_int:
  "resolve s (IntArray Int_default idx) =
     (case take_rows (pos (atoms s)) idx of Inl e \<Rightarrow> Inl e | Inr p \<Rightarrow> Inr (FloatArray p))"
  by (simp add: resolve_def)

lemma resolve_non_integer: "\<not> is_integer_dtype arg \<Longrightarrow> resolve s arg = Inr arg"
  by (cases arg) (simp_all add: resolve_def)

lemma resolve_literal_list:
  "resolve skew_system (IntArray Int_default (Arr [El 1, El 0, El (-1)])) =
     Inr (FloatArray (Arr [Arr [El 0, El 0, El 0], Arr [El 3, El 4, El 5], Arr [El 0, El 0, El 0]]))"
  by (simp add: resolve_def skew_system_def)

text \<open>
  Claim C9. The claim has every argument of an integer dtype read as atom indices. An
  index array of an integer dtype other than the default one (\<open>int32\<close> where Python's
  \<open>int\<close> is \<open>int64\<close>) does not pass the test \<open>dtype == int\<close>: as \<open>pos_0\<close> it reaches
  \<open>atomman.tools.dvect\<close> unchanged, as if its numbers were coordinates, while the same
  indices in the default integer dtype, as \<open>pos_1\<close>, are replaced by the positions of
  atoms 0 and 1.
\<close>

theorem dvect_other_integer_dtype_not_indexed:
  "is_integer_dtype (IntArray Int_other (Arr [El 0, El 1])) \<and>
   dvect tools_dvect (IntArray Int_other (Arr [El 0, El 1]))
       (IntArray Int_default (Arr [El 0, El 1])) skew_system =
     tools_dvect (IntArray Int_other (Arr [El 0, El 1]))
       (FloatArray (Arr [Arr [El 3, El 4, El 5], Arr [El 0, El 0, El 0]]))
       (box skew_system) (pbc skew_system)"
  by (simp add: dvect_def resolve_def skew_system_def)

end
